theory Spec2Isabelle
  imports Complex_Main "HOL-Library.List_Lexorder" "HOL-Library.Log_Nat"
begin

section \<open>Data model\<close>

text \<open>
  The script works on a dictionary \<open>nanoparticleData\<close> from nanoparticle names to pandas
  data frames with the four columns \<open>nm\<close>, \<open>Qext\<close>, \<open>Qsca\<close>, \<open>Qabs\<close>, and on a
  dictionary \<open>weights\<close> with the keys \<open>scattering\<close> and \<open>absorption\<close>.

  The efficiencies, the weights and the scores are numbers of numpy and Python: 64-bit floats
  as a rule, 64-bit integers when a column holds only integers. Their arithmetic is not part
  of the script, so the model takes it as a parameter: a type \<open>'v\<close> of values and a record
  of the operations the script applies to them. Nothing is assumed about the operations;
  two arithmetics are given below, the exact one on the rationals and the binary64 one.

  A data frame is the list of its rows in file order. The dictionary of data frames is an
  association list in insertion order (\<open>list(d.keys())\<close> is \<open>map fst\<close>, \<open>d[k]\<close> is
  \<open>map_of\<close>). Wavelengths are compared by equality only and stay exact numbers.
\<close>

record 'v arith =
  mul :: "'v \<Rightarrow> 'v \<Rightarrow> 'v"
  add :: "'v \<Rightarrow> 'v \<Rightarrow> 'v"
  sub :: "'v \<Rightarrow> 'v \<Rightarrow> 'v"
  int_zero :: 'v
  gt :: "'v \<Rightarrow> 'v \<Rightarrow> bool"
  gt_neg_inf :: "'v \<Rightarrow> bool"

text \<open>
  \<open>mul\<close>, \<open>add\<close> and \<open>sub\<close> are \<open>*\<close>, \<open>+\<close> and \<open>-\<close>; \<open>int_zero\<close> is the Python
  integer \<open>0\<close> as an operand of them; \<open>gt a b\<close> is \<open>a > b\<close> and \<open>gt_neg_inf a\<close> is
  \<open>a > float('-inf')\<close>.
\<close>

record 'v optical_row =
  nm :: rat
  Qext :: 'v
  Qsca :: 'v
  Qabs :: 'v

type_synonym 'v dataframe = "'v optical_row list"

type_synonym 'v catalog = "(string \<times> 'v dataframe) list"

record 'v weights =
  scattering :: 'v
  absorption :: 'v

type_synonym pairing = "string \<times> rat"

type_synonym combination = "pairing list"

text \<open>
  The exceptions the functions can raise: \<open>IndexError\<close> from \<open>nanoparticles[0]\<close> and from
  \<open>combination[i]\<close>, \<open>KeyError\<close> from \<open>data[nanoparticle]\<close>, and the \<open>ValueError\<close> of a
  failed wavelength lookup, which carries the wavelength and the nanoparticle of its message.
\<close>

datatype error = IndexError | KeyError string | ValueError rat string

text \<open>
  The accumulators \<open>total_penalty\<close> and \<open>total_score\<close> start as the Python integer \<open>0\<close>
  and hold a value of the arithmetic after the first \<open>+=\<close>. \<open>operand\<close> is such a
  number as an operand of the arithmetic.
\<close>

datatype 'v number = PyZero | Np 'v

fun operand :: "'v arith \<Rightarrow> 'v number \<Rightarrow> 'v" where
  "operand ar PyZero = int_zero ar"
| "operand ar (Np x) = x"

text \<open>The running maximum: the initial \<open>float('-inf')\<close> or a score.\<close>

datatype 'v maxscore = MinusInf | Fin "'v number"

text \<open>
  \<open>score > maxScore\<close>. Python's integer \<open>0\<close> is greater than \<open>float('-inf')\<close> and not
  greater than itself; every other comparison is one of the arithmetic.
\<close>

fun exceeds :: "'v arith \<Rightarrow> 'v number \<Rightarrow> 'v maxscore \<Rightarrow> bool" where
  "exceeds ar PyZero MinusInf = True"
| "exceeds ar (Np x) MinusInf = gt_neg_inf ar x"
| "exceeds ar PyZero (Fin PyZero) = False"
| "exceeds ar score (Fin m) = gt ar (operand ar score) (operand ar m)"

section \<open>Table lookups\<close>

text \<open>
  \<open>df.loc[df.iloc[:, 0] == wavelength]\<close> keeps the rows whose first column equals the
  wavelength, in order; \<open>.values[0]\<close> reads the first of them.
\<close>

definition calculate_absorption :: "'v catalog \<Rightarrow> string \<Rightarrow> rat \<Rightarrow> error + 'v" where
  "calculate_absorption data nanoparticle wavelength =
     (case map_of data nanoparticle of
        None \<Rightarrow> Inl (KeyError nanoparticle)
      | Some df \<Rightarrow>
          (case filter (\<lambda>r. nm r = wavelength) df of
             target # _ \<Rightarrow> Inr (Qabs target)
           | [] \<Rightarrow> Inl (ValueError wavelength nanoparticle)))"

definition calculate_scattering :: "'v catalog \<Rightarrow> string \<Rightarrow> rat \<Rightarrow> error + 'v" where
  "calculate_scattering data nanoparticle wavelength =
     (case map_of data nanoparticle of
        None \<Rightarrow> Inl (KeyError nanoparticle)
      | Some df \<Rightarrow>
          (case filter (\<lambda>r. nm r = wavelength) df of
             target # _ \<Rightarrow> Inr (Qsca target)
           | [] \<Rightarrow> Inl (ValueError wavelength nanoparticle)))"

section \<open>The S score\<close>

text \<open>\<open>combination[i]\<close> for a non-negative index: out of range raises.\<close>

definition item :: "'a list \<Rightarrow> nat \<Rightarrow> error + 'a" where
  "item xs i = (if i < length xs then Inr (xs ! i) else Inl IndexError)"

text \<open>
  The inner loop \<open>for j in range(n)\<close> of \<open>calculate_S_score\<close>, over the indices still to
  visit, with the running \<open>total_penalty\<close>. The absorption lookup comes before the
  scattering lookup, as in the source.
\<close>

fun penalty_loop ::
  "'v arith \<Rightarrow> 'v catalog \<Rightarrow> 'v weights \<Rightarrow> combination \<Rightarrow> nat \<Rightarrow> rat \<Rightarrow> nat list
     \<Rightarrow> 'v number \<Rightarrow> error + 'v number" where
  "penalty_loop ar data w combination i wavelength [] total_penalty = Inr total_penalty"
| "penalty_loop ar data w combination i wavelength (j # js) total_penalty =
     (if i \<noteq> j then
        (case item combination j of
           Inl e \<Rightarrow> Inl e
         | Inr (other_nanoparticle, _) \<Rightarrow>
             (case calculate_absorption data other_nanoparticle wavelength of
                Inl e \<Rightarrow> Inl e
              | Inr other_absorption \<Rightarrow>
                  (case calculate_scattering data other_nanoparticle wavelength of
                     Inl e \<Rightarrow> Inl e
                   | Inr other_scattering \<Rightarrow>
                       penalty_loop ar data w combination i wavelength js
                         (Np (add ar (operand ar total_penalty)
                                (add ar (mul ar (scattering w) other_scattering)
                                   (mul ar (absorption w) other_absorption)))))))
      else penalty_loop ar data w combination i wavelength js total_penalty)"

text \<open>The outer loop \<open>for i in range(n)\<close>, with the running \<open>total_score\<close>.\<close>

fun score_loop ::
  "'v arith \<Rightarrow> nat \<Rightarrow> 'v catalog \<Rightarrow> 'v weights \<Rightarrow> combination \<Rightarrow> nat list
     \<Rightarrow> 'v number \<Rightarrow> error + 'v number" where
  "score_loop ar n data w combination [] total_score = Inr total_score"
| "score_loop ar n data w combination (i # is) total_score =
     (case item combination i of
        Inl e \<Rightarrow> Inl e
      | Inr (nanoparticle, wavelength) \<Rightarrow>
          (case calculate_absorption data nanoparticle wavelength of
             Inl e \<Rightarrow> Inl e
           | Inr absorptionCrossSection \<Rightarrow>
               (case calculate_scattering data nanoparticle wavelength of
                  Inl e \<Rightarrow> Inl e
                | Inr scatteringCrossSection \<Rightarrow>
                    (case penalty_loop ar data w combination i wavelength [0..<n] PyZero of
                       Inl e \<Rightarrow> Inl e
                     | Inr total_penalty \<Rightarrow>
                         score_loop ar n data w combination is
                           (Np (add ar (operand ar total_score)
                                  (sub ar
                                     (add ar (mul ar (scattering w) scatteringCrossSection)
                                        (mul ar (absorption w) absorptionCrossSection))
                                     (operand ar total_penalty))))))))"

definition calculate_S_score ::
  "'v arith \<Rightarrow> nat \<Rightarrow> combination \<Rightarrow> 'v catalog \<Rightarrow> 'v weights \<Rightarrow> error + 'v number" where
  "calculate_S_score ar n combination data w =
     score_loop ar n data w combination [0..<n] PyZero"

section \<open>The search\<close>

text \<open>
  \<open>itertools.combinations(iterable, r)\<close>: the \<open>r\<close>-element subsequences of the input, by
  position, in lexicographic order of their positions; one empty tuple for \<open>r = 0\<close> and
  nothing when \<open>r\<close> exceeds the length.
\<close>

fun combinations :: "'a list \<Rightarrow> nat \<Rightarrow> 'a list list" where
  "combinations xs 0 = [[]]"
| "combinations [] (Suc r) = []"
| "combinations (x # xs) (Suc r) =
     map (\<lambda>c. x # c) (combinations xs r) @ combinations xs (Suc r)"

text \<open>pandas' \<open>Series.unique()\<close>: the distinct values in order of first appearance.\<close>

fun unique :: "'a list \<Rightarrow> 'a list \<Rightarrow> 'a list" where
  "unique seen [] = []"
| "unique seen (x # xs) =
     (if x \<in> set seen then unique seen xs else x # unique (x # seen) xs)"

text \<open>
  The reuse check of one combination: the loop over its pairs with the set
  \<open>used_nanoparticles\<close>; the result is the final \<open>valid_combination\<close>.
\<close>

fun valid_combination :: "string set \<Rightarrow> combination \<Rightarrow> bool" where
  "valid_combination used_nanoparticles [] = True"
| "valid_combination used_nanoparticles ((np, wl) # rest) =
     (if np \<in> used_nanoparticles then False
      else valid_combination (insert np used_nanoparticles) rest)"

text \<open>
  The main loop over the combinations still to visit, with the running
  \<open>bestCombination\<close> and \<open>maxScore\<close>. Besides the outcome the model returns the list of
  the combinations that were passed to \<open>calculate_S_score\<close>, in order; an exception of the
  scoring ends the loop. The progress line printed at each update is not modelled.
\<close>

fun search_loop ::
  "'v arith \<Rightarrow> nat \<Rightarrow> 'v catalog \<Rightarrow> 'v weights \<Rightarrow> combination list \<Rightarrow> combination option
     \<Rightarrow> 'v maxscore \<Rightarrow> combination list \<times> (error + combination option \<times> 'v maxscore)" where
  "search_loop ar n data w [] bestCombination maxScore =
     ([], Inr (bestCombination, maxScore))"
| "search_loop ar n data w (c # cs) bestCombination maxScore =
     (if \<not> valid_combination {} c then search_loop ar n data w cs bestCombination maxScore
      else
        (case calculate_S_score ar n c data w of
           Inl e \<Rightarrow> ([c], Inl e)
         | Inr score \<Rightarrow>
             (case (if exceeds ar score maxScore
                    then search_loop ar n data w cs (Some c) (Fin score)
                    else search_loop ar n data w cs bestCombination maxScore) of
                (scored, outcome) \<Rightarrow> (c # scored, outcome))))"

text \<open>
  The flat list \<open>[(np, wl) for np in nanoparticles for wl in wavelengths]\<close> and the
  combinations drawn from it.
\<close>

definition pairings :: "string list \<Rightarrow> rat list \<Rightarrow> pairing list" where
  "pairings nanoparticles wavelengths = [(np, wl). np \<leftarrow> nanoparticles, wl \<leftarrow> wavelengths]"

text \<open>
  The set-up of \<open>find_best_combination\<close>: the names, the wavelengths of the first name's
  table, and the run of the main loop from \<open>(None, -inf)\<close>. \<open>nanoparticles[0]\<close> raises on
  an empty dictionary.
\<close>

definition run_search ::
  "'v arith \<Rightarrow> nat \<Rightarrow> 'v catalog \<Rightarrow> 'v weights
     \<Rightarrow> combination list \<times> (error + combination option \<times> 'v maxscore)" where
  "run_search ar n data w =
     (let nanoparticles = map fst data in
      case nanoparticles of
        [] \<Rightarrow> ([], Inl IndexError)
      | first # _ \<Rightarrow>
          (case map_of data first of
             None \<Rightarrow> ([], Inl (KeyError first))
           | Some df \<Rightarrow>
               (let wavelengths = unique [] (map nm df) in
                search_loop ar n data w
                  (combinations (pairings nanoparticles wavelengths) n) None MinusInf)))"

definition find_best_combination ::
  "'v arith \<Rightarrow> nat \<Rightarrow> 'v catalog \<Rightarrow> 'v weights \<Rightarrow> error + combination option \<times> 'v maxscore" where
  "find_best_combination ar n data w = snd (run_search ar n data w)"

text \<open>The combinations that one call of \<open>find_best_combination\<close> scores, in order.\<close>

definition scored_combinations ::
  "'v arith \<Rightarrow> nat \<Rightarrow> 'v catalog \<Rightarrow> 'v weights \<Rightarrow> combination list" where
  "scored_combinations ar n data w = fst (run_search ar n data w)"

section \<open>The candidate space\<close>

text \<open>
  Names for what \<open>find_best_combination\<close> builds before its loop: the flat list of pairings
  (empty for an empty dictionary, where the function raises before building it), the tuples
  that \<open>combinations\<close> yields from it, and those among them without a repeated nanoparticle.
\<close>

definition universe :: "'v catalog \<Rightarrow> pairing list" where
  "universe data =
     (case data of
        [] \<Rightarrow> []
      | (first, df) # _ \<Rightarrow> pairings (map fst data) (unique [] (map nm df)))"

definition candidates :: "nat \<Rightarrow> 'v catalog \<Rightarrow> combination list" where
  "candidates n data = combinations (universe data) n"

definition valid_candidates :: "nat \<Rightarrow> 'v catalog \<Rightarrow> combination list" where
  "valid_candidates n data = filter (\<lambda>c. distinct (map fst c)) (candidates n data)"

text \<open>
  The list of values \<open>xs\<close> summed the way the script sums: an accumulator that starts as
  Python's \<open>0\<close> and takes each value with one \<open>+=\<close>, from left to right.
\<close>

definition machine_sum :: "'v arith \<Rightarrow> 'v list \<Rightarrow> 'v number" where
  "machine_sum ar xs = foldl (\<lambda>acc x. Np (add ar (operand ar acc) x)) PyZero xs"

text \<open>The response \<open>weights.scattering * s + weights.absorption * a\<close> of one lookup pair.\<close>

definition response :: "'v arith \<Rightarrow> 'v weights \<Rightarrow> 'v \<Rightarrow> 'v \<Rightarrow> 'v" where
  "response ar w s a = add ar (mul ar (scattering w) s) (mul ar (absorption w) a)"

text \<open>
  A set of scores without NaN, in terms of the comparisons alone: \<open>>\<close> is irreflexive and
  transitive on it, any two different scores are comparable, and a score that is greater than
  another one is greater than \<open>-inf\<close>.
\<close>

definition ordered_scores :: "'v arith \<Rightarrow> 'v number set \<Rightarrow> bool" where
  "ordered_scores ar S \<longleftrightarrow>
     (\<forall>a \<in> S. \<not> exceeds ar a (Fin a))
     \<and> (\<forall>a \<in> S. \<forall>b \<in> S. \<forall>c \<in> S.
           exceeds ar a (Fin b) \<longrightarrow> exceeds ar b (Fin c) \<longrightarrow> exceeds ar a (Fin c))
     \<and> (\<forall>a \<in> S. \<forall>b \<in> S. a = b \<or> exceeds ar a (Fin b) \<or> exceeds ar b (Fin a))
     \<and> (\<forall>a \<in> S. \<forall>b \<in> S. exceeds ar a (Fin b) \<longrightarrow> exceeds ar a MinusInf)"

text \<open>The scores of the valid candidates of a call, for the lookups that succeed.\<close>

definition valid_scores :: "'v arith \<Rightarrow> nat \<Rightarrow> 'v catalog \<Rightarrow> 'v weights \<Rightarrow> 'v number set" where
  "valid_scores ar n data w =
     {s. \<exists>c \<in> set (valid_candidates n data). calculate_S_score ar n c data w = Inr s}"

text \<open>Both weights multiplied by a constant, and a score multiplied by it.\<close>

definition scale_weights :: "'v arith \<Rightarrow> 'v \<Rightarrow> 'v weights \<Rightarrow> 'v weights" where
  "scale_weights ar k w =
     \<lparr>scattering = mul ar k (scattering w), absorption = mul ar k (absorption w)\<rparr>"

fun scale_score :: "'v arith \<Rightarrow> 'v \<Rightarrow> 'v number \<Rightarrow> 'v number" where
  "scale_score ar k PyZero = PyZero"
| "scale_score ar k (Np x) = Np (mul ar k x)"

fun scale_max :: "'v arith \<Rightarrow> 'v \<Rightarrow> 'v maxscore \<Rightarrow> 'v maxscore" where
  "scale_max ar k MinusInf = MinusInf"
| "scale_max ar k (Fin m) = Fin (scale_score ar k m)"

text \<open>
  Two catalogs that agree on the names, in order, and row by row on the wavelength, the
  scattering and the absorption columns; the \<open>Qext\<close> columns are unrelated.
\<close>

definition same_but_Qext :: "'v optical_row \<Rightarrow> 'v optical_row \<Rightarrow> bool" where
  "same_but_Qext r r' \<longleftrightarrow> nm r = nm r' \<and> Qsca r = Qsca r' \<and> Qabs r = Qabs r'"

definition agree_but_Qext :: "'v catalog \<Rightarrow> 'v catalog \<Rightarrow> bool" where
  "agree_but_Qext data data' \<longleftrightarrow>
     list_all2 (\<lambda>(name, df) (name', df'). name = name' \<and> list_all2 same_but_Qext df df')
       data data'"

text \<open>
  The tables with the \<open>Qext\<close> column overwritten by the \<open>Qsca\<close> column: what is left
  when \<open>Qext\<close> is ignored.
\<close>

definition without_Qext :: "'v catalog \<Rightarrow> 'v catalog" where
  "without_Qext data = map (\<lambda>(name, df). (name, map (\<lambda>r. r\<lparr>Qext := Qsca r\<rparr>) df)) data"

section \<open>Two arithmetics\<close>

text \<open>The exact arithmetic of the rationals, in which every number is above \<open>-inf\<close>.\<close>

definition exact :: "rat arith" where
  "exact = \<lparr>mul = (*), add = (+), sub = (-), int_zero = 0, gt = (\<lambda>a b. b < a),
             gt_neg_inf = (\<lambda>a. True)\<rparr>"

text \<open>
  The binary64 arithmetic of numpy's \<open>float64\<close> and of Python's \<open>float\<close>: a value is a
  finite number, an infinity or NaN; an operation on finite numbers computes exactly and
  rounds to the nearest number with a 53-bit significand and an exponent from -1022 to 1023,
  ties to the even significand, and to an infinity from \<open>2^1024 - 2^970\<close> on. The sign of
  a zero is not modelled: no operation of the script tells the two zeros apart.
\<close>

datatype f64 = Finite rat | PosInf | NegInf | NaN

text \<open>The \<open>e\<close> with \<open>2^e \<le> a < 2^(e+1)\<close>, for a positive \<open>a\<close>.\<close>

definition exponent :: "rat \<Rightarrow> int" where
  "exponent a =
     (let (p, q) = quotient_of a;
          e = int (floorlog 2 (nat p)) - int (floorlog 2 (nat q))
      in if 2 powi e \<le> a then e else e - 1)"

text \<open>The integer nearest to a non-negative \<open>x\<close>, the even one of two equally near.\<close>

definition tie_even :: "int \<Rightarrow> rat \<Rightarrow> int" where
  "tie_even f r =
     (if r < 1 / 2 then f else if 1 / 2 < r then f + 1 else if even f then f else f + 1)"

definition nearest :: "rat \<Rightarrow> int" where
  "nearest x = tie_even \<lfloor>x\<rfloor> (x - of_int \<lfloor>x\<rfloor>)"

text \<open>
  The spacing of the binary64 numbers around a positive \<open>a\<close>, and \<open>a\<close> rounded to a
  multiple of a spacing \<open>u\<close>.
\<close>

definition spacing :: "rat \<Rightarrow> rat" where
  "spacing a = 2 powi (max (exponent a) (- 1022) - 52)"

definition to_multiple :: "rat \<Rightarrow> rat \<Rightarrow> rat" where
  "to_multiple a u = of_int (nearest (a / u)) * u"

definition signed :: "bool \<Rightarrow> rat \<Rightarrow> f64" where
  "signed positive v =
     (if 2 ^ 1024 \<le> v then (if positive then PosInf else NegInf)
      else Finite (if positive then v else - v))"

definition round64 :: "rat \<Rightarrow> f64" where
  "round64 q =
     (if q = 0 then Finite 0
      else signed (0 < q) (to_multiple \<bar>q\<bar> (spacing \<bar>q\<bar>)))"

fun f64_neg :: "f64 \<Rightarrow> f64" where
  "f64_neg (Finite a) = Finite (- a)"
| "f64_neg PosInf = NegInf"
| "f64_neg NegInf = PosInf"
| "f64_neg NaN = NaN"

fun f64_add :: "f64 \<Rightarrow> f64 \<Rightarrow> f64" where
  "f64_add NaN y = NaN"
| "f64_add x NaN = NaN"
| "f64_add PosInf NegInf = NaN"
| "f64_add NegInf PosInf = NaN"
| "f64_add PosInf y = PosInf"
| "f64_add x PosInf = PosInf"
| "f64_add NegInf y = NegInf"
| "f64_add x NegInf = NegInf"
| "f64_add (Finite a) (Finite b) = round64 (a + b)"

definition f64_sub :: "f64 \<Rightarrow> f64 \<Rightarrow> f64" where
  "f64_sub x y = f64_add x (f64_neg y)"

text \<open>The sign of a value that is not NaN: \<open>-1\<close>, \<open>0\<close> or \<open>1\<close>.\<close>

fun f64_sign :: "f64 \<Rightarrow> int" where
  "f64_sign (Finite a) = (if a < 0 then - 1 else if a = 0 then 0 else 1)"
| "f64_sign PosInf = 1"
| "f64_sign NegInf = - 1"
| "f64_sign NaN = 0"

fun f64_mul :: "f64 \<Rightarrow> f64 \<Rightarrow> f64" where
  "f64_mul NaN y = NaN"
| "f64_mul x NaN = NaN"
| "f64_mul (Finite a) (Finite b) = round64 (a * b)"
| "f64_mul x y =
     (if f64_sign x * f64_sign y = 0 then NaN
      else if 0 < f64_sign x * f64_sign y then PosInf else NegInf)"

fun f64_gt :: "f64 \<Rightarrow> f64 \<Rightarrow> bool" where
  "f64_gt NaN y = False"
| "f64_gt x NaN = False"
| "f64_gt (Finite a) (Finite b) = (b < a)"
| "f64_gt PosInf y = (y \<noteq> PosInf)"
| "f64_gt x PosInf = False"
| "f64_gt NegInf y = False"
| "f64_gt x NegInf = True"

definition binary64 :: "f64 arith" where
  "binary64 = \<lparr>mul = f64_mul, add = f64_add, sub = f64_sub, int_zero = Finite 0,
                gt = f64_gt, gt_neg_inf = (\<lambda>x. f64_gt x NegInf)\<rparr>"

section \<open>Small catalogs\<close>

text \<open>
  Two nanoparticles and two wavelengths in binary64: each responds strongly at one wavelength
  and weakly at the other. The weights are those of \<open>main\<close>.
\<close>

definition example_data :: "f64 catalog" where
  "example_data =
     [(''A'', [\<lparr>nm = 1, Qext = Finite 12, Qsca = Finite 10, Qabs = Finite 2\<rparr>,
               \<lparr>nm = 2, Qext = Finite 4, Qsca = Finite 2, Qabs = Finite 2\<rparr>]),
      (''B'', [\<lparr>nm = 1, Qext = Finite 4, Qsca = Finite 2, Qabs = Finite 2\<rparr>,
               \<lparr>nm = 2, Qext = Finite 12, Qsca = Finite 10, Qabs = Finite 2\<rparr>])]"

definition example_weights :: "f64 weights" where
  "example_weights = \<lparr>scattering = Finite (1 / 2), absorption = Finite (1 / 2)\<rparr>"

text \<open>A catalog whose second table lacks the wavelength 2 of the first.\<close>

definition ragged_data :: "f64 catalog" where
  "ragged_data =
     [(''A'', [\<lparr>nm = 1, Qext = Finite 12, Qsca = Finite 10, Qabs = Finite 2\<rparr>,
               \<lparr>nm = 2, Qext = Finite 4, Qsca = Finite 2, Qabs = Finite 2\<rparr>]),
      (''B'', [\<lparr>nm = 1, Qext = Finite 4, Qsca = Finite 2, Qabs = Finite 2\<rparr>])]"

text \<open>
  Two nanoparticles at one wavelength whose products with the weight \<open>2^600\<close> overflow, and
  the same with the weight \<open>-2^600\<close>.
\<close>

definition huge_data :: "f64 catalog" where
  "huge_data =
     [(''A'', [\<lparr>nm = 1, Qext = Finite (2 ^ 600), Qsca = Finite (2 ^ 600), Qabs = Finite 0\<rparr>]),
      (''B'', [\<lparr>nm = 1, Qext = Finite (2 ^ 600), Qsca = Finite (2 ^ 600), Qabs = Finite 0\<rparr>])]"

definition huge_weights :: "f64 weights" where
  "huge_weights = \<lparr>scattering = Finite (2 ^ 600), absorption = Finite 0\<rparr>"

definition negative_huge_weights :: "f64 weights" where
  "negative_huge_weights = \<lparr>scattering = Finite (- (2 ^ 600)), absorption = Finite 0\<rparr>"

text \<open>
  Two nanoparticles at one wavelength whose responses under unit weights are \<open>2^53\<close> and
  \<open>2^53 + 1\<close>, the second of which is not a binary64 number.
\<close>

definition close_data :: "f64 catalog" where
  "close_data =
     [(''A'', [\<lparr>nm = 1, Qext = Finite (2 ^ 53), Qsca = Finite (2 ^ 53), Qabs = Finite 0\<rparr>]),
      (''B'', [\<lparr>nm = 1, Qext = Finite (2 ^ 53), Qsca = Finite (2 ^ 53), Qabs = Finite 1\<rparr>])]"

definition unit_weights :: "f64 weights" where
  "unit_weights = \<lparr>scattering = Finite 1, absorption = Finite 1\<rparr>"

section \<open>Rounding to binary64\<close>

lemma floorlog_bounds_rat:
  assumes "0 < p"
  shows "(2::rat) powi (int (floorlog 2 (nat p)) - 1) \<le> of_int p"
    and "of_int p < (2::rat) powi (int (floorlog 2 (nat p)))"
proof -
  let ?l = "floorlog 2 (nat p)"
  have pos: "0 < nat p"
    using assms by simp
  have b: "2 ^ (?l - 1) \<le> nat p" "nat p < 2 ^ ?l"
    using floorlog_bounds [of "nat p" 2] pos by simp_all
  have l: "0 < ?l"
    using pos by (simp add: floorlog_def)
  have "(2::rat) powi (int ?l - 1) = 2 ^ (?l - 1)"
    using l by (simp add: power_int_def nat_diff_distrib')
  also have "\<dots> = of_nat (2 ^ (?l - 1))"
    by simp
  also have "\<dots> \<le> of_nat (nat p)"
    using b(1) by (simp only: of_nat_le_iff)
  finally show "(2::rat) powi (int ?l - 1) \<le> of_int p"
    using assms by simp
  have "(of_nat (nat p) :: rat) < of_nat (2 ^ ?l)"
    using b(2) by (simp only: of_nat_less_iff)
  then show "of_int p < (2::rat) powi (int ?l)"
    using assms by simp
qed

lemma exponent_bounds:
  assumes "0 < a"
  shows "2 powi exponent a \<le> a \<and> a < 2 powi (exponent a + 1)"
proof -
  obtain p q where pq: "quotient_of a = (p, q)"
    by (cases "quotient_of a")
  have q: "0 < q"
    using quotient_of_denom_pos [OF pq] .
  have a: "a = of_int p / of_int q"
    using quotient_of_div [OF pq] .
  have p: "0 < p"
    using assms q a by (simp add: zero_less_divide_iff)
  let ?lp = "int (floorlog 2 (nat p))" and ?lq = "int (floorlog 2 (nat q))"
  let ?e = "?lp - ?lq"
  note bp = floorlog_bounds_rat [OF p] and bq = floorlog_bounds_rat [OF q]
  have qr: "(0::rat) < of_int q"
    using q by simp
  have upper: "a < 2 powi (?e + 1)"
  proof -
    have "of_int p * (2::rat) powi (?lq - 1) < 2 powi ?lp * of_int q"
      using bp(2) bq(1) p q
      by (intro mult_less_le_imp_less) simp_all
    then have "of_int p / of_int q < (2::rat) powi ?lp / 2 powi (?lq - 1)"
      using qr by (simp add: field_simps)
    also have "\<dots> = 2 powi (?lp - (?lq - 1))"
      by (rule power_int_diff [symmetric]) simp
    also have "\<dots> = 2 powi (?e + 1)"
      by (rule arg_cong [where f = "\<lambda>e. 2 powi e"]) simp
    finally show ?thesis
      using a by simp
  qed
  have lower: "2 powi (?e - 1) \<le> a"
  proof -
    have "(2::rat) powi (?lp - 1) * of_int q \<le> of_int p * 2 powi ?lq"
      using bp(1) bq(2) p q
      by (intro mult_mono) simp_all
    then have "(2::rat) powi (?lp - 1) / 2 powi ?lq \<le> of_int p / of_int q"
      using qr by (simp add: field_simps)
    moreover have "(2::rat) powi (?lp - 1) / 2 powi ?lq = 2 powi ((?lp - 1) - ?lq)"
      by (rule power_int_diff [symmetric]) simp
    moreover have "(2::rat) powi ((?lp - 1) - ?lq) = 2 powi (?e - 1)"
      by (rule arg_cong [where f = "\<lambda>e. 2 powi e"]) simp
    ultimately show ?thesis
      using a by simp
  qed
  show ?thesis
  proof (cases "2 powi ?e \<le> a")
    case True
    then have "exponent a = ?e"
      by (simp add: exponent_def pq)
    then show ?thesis
      using True upper by simp
  next
    case False
    then have "exponent a = ?e - 1"
      by (simp add: exponent_def pq)
    then show ?thesis
      using False lower by simp
  qed
qed

lemma exponent_unique:
  assumes "0 < a" and "2 powi e \<le> a" and "a < 2 powi (e + 1)"
  shows "exponent a = e"
proof -
  note b = exponent_bounds [OF assms(1)]
  have less: "m < n" if "(2::rat) powi m < 2 powi n" for m n :: int
  proof (rule ccontr)
    assume "\<not> m < n"
    then have "(2::rat) powi n \<le> 2 powi m"
      by (intro power_int_increasing) simp_all
    then show False
      using that by simp
  qed
  have "(2::rat) powi e < 2 powi (exponent a + 1)"
    using assms(2) b by simp
  then have 1: "e < exponent a + 1"
    by (rule less)
  have "(2::rat) powi exponent a < 2 powi (e + 1)"
    using assms(3) b by simp
  then have 2: "exponent a < e + 1"
    by (rule less)
  from 1 2 show ?thesis
    by simp
qed

lemma round64_at:
  assumes "q \<noteq> 0" and "2 powi e \<le> \<bar>q\<bar>" and "\<bar>q\<bar> < 2 powi (e + 1)"
  shows "round64 q = signed (0 < q) (to_multiple \<bar>q\<bar> (2 powi (max e (- 1022) - 52)))"
proof -
  have "0 < \<bar>q\<bar>"
    using assms(1) by simp
  then have "exponent \<bar>q\<bar> = e"
    using assms(2,3) by (rule exponent_unique)
  then show ?thesis
    using assms(1) by (simp add: round64_def spacing_def)
qed

lemma nearest_of_int: "nearest (of_int z) = z"
  by (simp add: nearest_def tie_even_def)

lemma round64_of_int:
  assumes "\<bar>n\<bar> < 2 ^ 53"
  shows "round64 (of_int n) = Finite (of_int n)"
proof (cases "n = 0")
  case True
  then show ?thesis
    by (simp add: round64_def)
next
  case False
  let ?a = "\<bar>of_int n :: rat\<bar>"
  let ?e = "exponent ?a"
  have pos: "0 < ?a"
    using False by simp
  note b = exponent_bounds [OF pos]
  have less: "i < j" if "(2::rat) powi i < 2 powi j" for i j :: int
  proof (rule ccontr)
    assume "\<not> i < j"
    then have "(2::rat) powi j \<le> 2 powi i"
      by (intro power_int_increasing) simp_all
    then show False
      using that by simp
  qed
  have "1 \<le> \<bar>n\<bar>"
    using False by simp
  then have "(1::rat) \<le> ?a"
    by (metis of_int_1 of_int_abs of_int_le_iff)
  then have "(2::rat) powi 0 < 2 powi (?e + 1)"
    using b by simp
  then have lo: "0 \<le> ?e"
    using less [of 0 "?e + 1"] by simp
  have "?a < 2 ^ 53"
    using assms by (metis of_int_abs of_int_less_iff of_int_numeral of_int_power)
  then have "(2::rat) powi ?e < 2 powi 53"
    using b by simp
  then have hi: "?e < 53"
    by (rule less)
  let ?k = "nat (52 - ?e)"
  have u: "(2::rat) powi (max ?e (- 1022) - 52) = 1 / 2 ^ ?k"
  proof -
    have "max ?e (- 1022) - 52 = - int ?k"
      using lo hi by simp
    then have "(2::rat) powi (max ?e (- 1022) - 52) = 2 powi (- int ?k)"
      by simp
    also have "\<dots> = 1 / 2 powi (int ?k)"
      by (rule power_int_minus_divide)
    also have "\<dots> = 1 / 2 ^ ?k"
      by (simp only: power_int_of_nat)
    finally show ?thesis .
  qed
  have "?a / (1 / 2 ^ ?k) = of_int (\<bar>n\<bar> * 2 ^ ?k)"
    by simp
  then have "to_multiple ?a (1 / 2 ^ ?k) = of_int (\<bar>n\<bar> * 2 ^ ?k) * (1 / 2 ^ ?k)"
    unfolding to_multiple_def by (simp only: nearest_of_int)
  also have "\<dots> = ?a"
    by simp
  finally have m: "to_multiple ?a (2 powi (max ?e (- 1022) - 52)) = ?a"
    using u by simp
  have small: "?a < 2 ^ 1024"
  proof -
    have "(2::rat) ^ 53 \<le> 2 ^ 1024"
      by (rule power_increasing) simp_all
    then show ?thesis
      using \<open>?a < 2 ^ 53\<close> by (rule less_le_trans [rotated])
  qed
  have "round64 (of_int n) = signed (0 < (of_int n :: rat)) ?a"
    using False m by (simp add: round64_def spacing_def)
  also have "\<dots> = Finite (of_int n)"
    using small False by (auto simp: signed_def not_le abs_if)
  finally show ?thesis .
qed

lemma round64_numeral:
  "(numeral n :: int) < 2 ^ 53 \<Longrightarrow> round64 (numeral n) = Finite (numeral n)"
  using round64_of_int [of "numeral n"] by simp

lemma round64_neg_numeral:
  "(numeral n :: int) < 2 ^ 53 \<Longrightarrow> round64 (- numeral n) = Finite (- numeral n)"
  using round64_of_int [of "- numeral n"] by simp

lemma round64_0: "round64 0 = Finite 0"
  by (simp add: round64_def)

lemma round64_1: "round64 1 = Finite 1"
  using round64_of_int [of 1] by simp

lemmas round64_small = round64_0 round64_1 round64_numeral round64_neg_numeral

lemma floor_rat_numerals:
  "\<lfloor>(numeral a :: rat) / numeral b\<rfloor> = numeral a div numeral b"
  using floor_divide_of_int_eq [of "numeral a" "numeral b", where ?'a = rat] by simp

lemmas round_defs = to_multiple_def nearest_def tie_even_def signed_def floor_rat_numerals

text \<open>The facts that evaluate a call on a concrete catalog in binary64.\<close>

lemmas eval_defs = find_best_combination_def run_search_def scored_combinations_def
  pairings_def calculate_S_score_def calculate_absorption_def calculate_scattering_def item_def
  binary64_def f64_sub_def round64_small upt_rec numeral_2_eq_2
  candidates_def valid_candidates_def universe_def

section \<open>Properties of the enumeration\<close>

lemma run_search_nonempty:
  "data \<noteq> [] \<Longrightarrow>
     run_search ar n data w = search_loop ar n data w (candidates n data) None MinusInf"
  by (cases data) (auto simp: run_search_def candidates_def universe_def)

subsection \<open>Combinations\<close>

lemma combinations_length: "c \<in> set (combinations xs r) \<Longrightarrow> length c = r"
  by (induction xs r arbitrary: c rule: combinations.induct) auto

lemma combinations_subset: "c \<in> set (combinations xs r) \<Longrightarrow> set c \<subseteq> set xs"
  by (induction xs r arbitrary: c rule: combinations.induct) fastforce+

lemma combinations_map: "combinations (map f xs) r = map (map f) (combinations xs r)"
  by (induction xs r rule: combinations.induct) simp_all

subsection \<open>The reuse check\<close>

lemma valid_combination_iff:
  "valid_combination used c \<longleftrightarrow> distinct (map fst c) \<and> fst ` set c \<inter> used = {}"
  by (induction used c rule: valid_combination.induct) auto

lemma valid_combination_distinct: "valid_combination {} c \<longleftrightarrow> distinct (map fst c)"
  by (simp add: valid_combination_iff)

subsection \<open>The flat list\<close>

lemma unique_set: "set (unique seen xs) = set xs - set seen"
  by (induction seen xs rule: unique.induct) auto

lemma unique_distinct: "distinct (unique seen xs)"
  by (induction seen xs rule: unique.induct) (auto simp: unique_set)

lemma pairings_set: "set (pairings nps wls) = set nps \<times> set wls"
  by (auto simp: pairings_def)

lemma universe_set:
  "data \<noteq> [] \<Longrightarrow> set (universe data) = fst ` set data \<times> nm ` set (snd (hd data))"
  by (cases data) (auto simp: universe_def pairings_set unique_set)

lemma universe_names: "fst ` set (universe data) \<subseteq> fst ` set data"
  by (cases data) (force simp: universe_def pairings_set unique_set)+

lemma candidates_names:
  assumes "c \<in> set (candidates n data)"
  shows "fst ` set c \<subseteq> fst ` set data"
proof -
  have "set c \<subseteq> set (universe data)"
    using assms by (simp add: candidates_def combinations_subset)
  then show ?thesis
    using universe_names [of data] by blast
qed

subsection \<open>The main loop\<close>

lemma search_loop_Cons:
  "search_loop ar n data w (c # cs) best m =
     (if \<not> distinct (map fst c) then search_loop ar n data w cs best m
      else
        (case calculate_S_score ar n c data w of
           Inl e \<Rightarrow> ([c], Inl e)
         | Inr s \<Rightarrow>
             (let r = search_loop ar n data w cs
                        (if exceeds ar s m then Some c else best) (if exceeds ar s m then Fin s else m)
              in (c # fst r, snd r))))"
  by (simp add: valid_combination_distinct split: sum.splits prod.splits)

lemma search_loop_scored_subset:
  "x \<in> set (fst (search_loop ar n data w cs best m)) \<Longrightarrow> x \<in> set cs \<and> distinct (map fst x)"
proof (induction cs arbitrary: best m)
  case Nil
  then show ?case by simp
next
  case (Cons c cs)
  then show ?case
    by (fastforce simp del: search_loop.simps simp add: search_loop_Cons Let_def
        split: if_splits sum.splits)
qed

lemma search_loop_scored_all:
  "snd (search_loop ar n data w cs best m) = Inr r \<Longrightarrow>
     fst (search_loop ar n data w cs best m) = filter (\<lambda>c. distinct (map fst c)) cs"
proof (induction cs arbitrary: best m)
  case Nil
  show ?case by simp
next
  case (Cons c cs)
  then show ?case
    by (auto simp del: search_loop.simps simp add: search_loop_Cons Let_def
        split: if_splits sum.splits)
qed

lemma search_loop_none_valid:
  "\<forall>c \<in> set cs. \<not> distinct (map fst c) \<Longrightarrow>
     search_loop ar n data w cs best m = ([], Inr (best, m))"
  by (induction cs) (simp_all add: valid_combination_distinct)

section \<open>Which combinations are scored\<close>

text \<open>
  Claim C5. Every combination that \<open>find_best_combination\<close> passes to
  \<open>calculate_S_score\<close> is one of the enumerated candidates, has exactly \<open>n\<close> pairs and
  pairwise distinct nanoparticle names, so a candidate with a repeated name is never scored.
  Conversely, when the call returns, every enumerated candidate with pairwise distinct names
  was scored, whatever its wavelengths: a repeated wavelength does not disqualify.
\<close>

theorem scored_combinations_valid:
  "(c \<in> set (scored_combinations ar n data w) \<longrightarrow>
      c \<in> set (candidates n data) \<and> length c = n \<and> distinct (map fst c))
   \<and> (find_best_combination ar n data w = Inr r \<and> c \<in> set (candidates n data)
        \<and> distinct (map fst c) \<longrightarrow> c \<in> set (scored_combinations ar n data w))"
proof (cases "data = []")
  case True
  then show ?thesis
    by (simp add: scored_combinations_def find_best_combination_def run_search_def)
next
  case False
  have a: "c \<in> set (candidates n data) \<and> length c = n \<and> distinct (map fst c)"
    if "c \<in> set (scored_combinations ar n data w)"
  proof -
    from that have "c \<in> set (candidates n data) \<and> distinct (map fst c)"
      using search_loop_scored_subset [of c ar n data w "candidates n data" None MinusInf] False
      by (auto simp: scored_combinations_def run_search_nonempty)
    then show ?thesis
      by (auto simp: candidates_def dest: combinations_length)
  qed
  have b: "c \<in> set (scored_combinations ar n data w)"
    if "find_best_combination ar n data w = Inr r" "c \<in> set (candidates n data)"
      "distinct (map fst c)"
    using that False
      search_loop_scored_all [of ar n data w "candidates n data" None MinusInf r]
    by (simp add: scored_combinations_def find_best_combination_def run_search_nonempty)
  from a b show ?thesis by blast
qed

theorem scored_combinations_valid_witness:
  "[(''A'', 1), (''B'', 1)] \<in> set (scored_combinations binary64 2 example_data example_weights)
   \<and> [(''A'', 1), (''B'', 1)] \<in> set (candidates 2 example_data)
   \<and> length [(''A'', 1::rat), (''B'', 1)] = 2
   \<and> distinct (map fst [(''A'', 1::rat), (''B'', 1)])
   \<and> find_best_combination binary64 2 example_data example_weights
       = Inr (Some [(''A'', 1), (''B'', 2)], Fin (Np (Finite 8)))"
proof -
  let ?c = "[(''A'', 1::rat), (''B'', 1)]"
  let ?r = "(Some [(''A'', 1::rat), (''B'', 2)], Fin (Np (Finite 8)))"
  have h1: "find_best_combination binary64 2 example_data example_weights = Inr ?r"
    by (simp add: eval_defs example_data_def example_weights_def)
  have h2: "?c \<in> set (candidates 2 example_data)"
    by (simp add: eval_defs example_data_def)
  have h3: "distinct (map fst ?c)"
    by simp
  have imp: "find_best_combination binary64 2 example_data example_weights = Inr ?r
      \<and> ?c \<in> set (candidates 2 example_data) \<and> distinct (map fst ?c)
      \<longrightarrow> ?c \<in> set (scored_combinations binary64 2 example_data example_weights)"
    by (rule conjunct2 [OF scored_combinations_valid])
  have s: "?c \<in> set (scored_combinations binary64 2 example_data example_weights)"
    by (rule mp [OF imp]) (intro conjI h1 h2 h3)
  have "?c \<in> set (scored_combinations binary64 2 example_data example_weights)
      \<longrightarrow> ?c \<in> set (candidates 2 example_data) \<and> length ?c = 2 \<and> distinct (map fst ?c)"
    by (rule conjunct1 [OF scored_combinations_valid])
  then show ?thesis
    using s h1 by simp
qed

text \<open>
  Claim C6. For every non-empty catalog and all weights, when \<open>n\<close> exceeds the number of
  distinct nanoparticle names, \<open>find_best_combination\<close> returns \<open>(None, -inf)\<close> and raises
  nothing: no enumerated tuple of \<open>n\<close> pairs has pairwise distinct names.
\<close>

theorem find_best_combination_too_many:
  assumes "data \<noteq> []" and "card (fst ` set data) < n"
  shows "find_best_combination ar n data w = Inr (None, MinusInf)"
proof -
  have "\<not> distinct (map fst c)" if c: "c \<in> set (candidates n data)" for c
  proof
    assume d: "distinct (map fst c)"
    have "length c = n"
      using c by (simp add: candidates_def combinations_length)
    with d have "card (fst ` set c) = n"
      using distinct_card [of "map fst c"] by simp
    moreover have "card (fst ` set c) \<le> card (fst ` set data)"
      using candidates_names [OF c] by (simp add: card_mono)
    ultimately show False
      using assms(2) by simp
  qed
  then show ?thesis
    using assms(1) by (simp add: find_best_combination_def run_search_nonempty search_loop_none_valid)
qed

theorem find_best_combination_too_many_witness:
  "example_data \<noteq> [] \<and> card (fst ` set example_data) < 3
   \<and> find_best_combination binary64 3 example_data example_weights = Inr (None, MinusInf)"
proof -
  have h1: "example_data \<noteq> []"
    by (simp add: example_data_def)
  have h2: "card (fst ` set example_data) < 3"
    by (simp add: example_data_def)
  show ?thesis
    using h1 h2 find_best_combination_too_many [OF h1 h2, of binary64 example_weights] by simp
qed

section \<open>Degenerate inputs\<close>

lemma pairings_no_wavelengths: "pairings nanoparticles [] = []"
  by (induction nanoparticles) (simp_all add: pairings_def)

lemma run_search_empty: "run_search ar n [] w = ([], Inl IndexError)"
  by (simp add: run_search_def)

text \<open>
  Claim C8. For every non-empty catalog and all weights, \<open>find_best_combination\<close> with
  \<open>n = 0\<close> returns the empty combination (not \<open>None\<close>) with score 0: the one empty
  tuple that \<open>combinations\<close> yields is valid, its score is the untouched Python integer
  \<open>0\<close>, and \<open>0\<close> exceeds \<open>-inf\<close>. This holds in every arithmetic.
\<close>

theorem find_best_combination_zero:
  "data \<noteq> [] \<Longrightarrow> find_best_combination ar 0 data w = Inr (Some [], Fin PyZero)"
  by (simp add: find_best_combination_def run_search_nonempty candidates_def
      calculate_S_score_def)

theorem find_best_combination_zero_witness:
  "example_data \<noteq> []
   \<and> find_best_combination binary64 0 example_data example_weights = Inr (Some [], Fin PyZero)"
proof -
  have h: "example_data \<noteq> []" by (simp add: example_data_def)
  show ?thesis using h find_best_combination_zero [OF h, of binary64 example_weights] by simp
qed

text \<open>
  Claim C4, as stated, fails for the empty catalog: \<open>nanoparticles[0]\<close> raises
  \<open>IndexError\<close> before any candidate is generated.
\<close>

theorem empty_catalog_raises:
  "find_best_combination binary64 1 [] example_weights = Inl IndexError
   \<and> find_best_combination binary64 1 [] example_weights \<noteq> Inr (None, MinusInf)"
  by (simp add: find_best_combination_def run_search_empty)

text \<open>
  Claim C4, amended. For all weights and every \<open>n \<ge> 1\<close>, \<open>find_best_combination\<close> on a
  non-empty catalog whose first table has no rows (hence zero wavelengths) generates and
  scores no candidate and returns \<open>(None, -inf)\<close> normally.
\<close>

theorem find_best_combination_no_wavelengths:
  "data \<noteq> [] \<Longrightarrow> snd (hd data) = [] \<Longrightarrow> 1 \<le> n \<Longrightarrow>
     find_best_combination ar n data w = Inr (None, MinusInf)
     \<and> scored_combinations ar n data w = []
     \<and> candidates n data = []"
  by (cases data; cases n)
     (auto simp: find_best_combination_def scored_combinations_def run_search_nonempty
       candidates_def universe_def pairings_no_wavelengths)

theorem find_best_combination_no_wavelengths_witness:
  "[(''A'', []), (''B'', [\<lparr>nm = 1, Qext = Finite 4, Qsca = Finite 2, Qabs = Finite 2\<rparr>])] \<noteq> []
   \<and> snd (hd [(''A'', []),
                (''B'', [\<lparr>nm = 1, Qext = Finite 4, Qsca = Finite 2, Qabs = Finite 2\<rparr>])]) = []
   \<and> (1::nat) \<le> 2
   \<and> find_best_combination binary64 2
        [(''A'', []), (''B'', [\<lparr>nm = 1, Qext = Finite 4, Qsca = Finite 2, Qabs = Finite 2\<rparr>])]
        example_weights = Inr (None, MinusInf)
   \<and> scored_combinations binary64 2
        [(''A'', []), (''B'', [\<lparr>nm = 1, Qext = Finite 4, Qsca = Finite 2, Qabs = Finite 2\<rparr>])]
        example_weights = []"
proof -
  let ?d = "[(''A'', []),
      (''B'', [\<lparr>nm = 1, Qext = Finite 4, Qsca = Finite 2, Qabs = Finite 2\<rparr>])]"
  have h1: "?d \<noteq> []" by simp
  have h2: "snd (hd ?d) = []" by simp
  have h3: "(1::nat) \<le> 2" by simp
  show ?thesis
    using h1 h2 h3
      find_best_combination_no_wavelengths [OF h1 h2 h3, of binary64 example_weights]
    by simp
qed

section \<open>Failed lookups\<close>

lemma calculate_absorption_error:
  "np \<in> fst ` set data \<Longrightarrow> calculate_absorption data np wl = Inl e \<Longrightarrow> e = ValueError wl np"
  by (auto simp: calculate_absorption_def map_of_eq_None_iff split: option.splits list.splits)

lemma calculate_scattering_error:
  "np \<in> fst ` set data \<Longrightarrow> calculate_scattering data np wl = Inl e \<Longrightarrow> e = ValueError wl np"
  by (auto simp: calculate_scattering_def map_of_eq_None_iff split: option.splits list.splits)

lemma penalty_loop_error:
  assumes "fst ` set c \<subseteq> fst ` set data" and "\<forall>j \<in> set js. j < length c"
    and "penalty_loop ar data w c i wl js tp = Inl e"
  shows "\<exists>x np. e = ValueError x np"
  using assms(2,3)
proof (induction js arbitrary: tp)
  case Nil
  then show ?case by simp
next
  case (Cons j js)
  obtain np x where p: "c ! j = (np, x)"
    by (cases "c ! j")
  have j: "j < length c"
    using Cons.prems by simp
  then have "np \<in> fst ` set data"
    using assms(1) p nth_mem [of j c] by force
  then have "\<exists>y q. e' = ValueError y q"
    if "calculate_absorption data np wl = Inl e' \<or> calculate_scattering data np wl = Inl e'"
    for e'
    using that calculate_absorption_error calculate_scattering_error by blast
  then show ?case
    using Cons j p
    by (auto simp: item_def split: if_splits sum.splits)
qed

lemma score_loop_error:
  assumes "fst ` set c \<subseteq> fst ` set data" and "n \<le> length c" and "\<forall>i \<in> set is. i < length c"
    and "score_loop ar n data w c is t = Inl e"
  shows "\<exists>x np. e = ValueError x np"
  using assms(3,4)
proof (induction "is" arbitrary: t)
  case Nil
  then show ?case by simp
next
  case (Cons i "is")
  obtain np x where p: "c ! i = (np, x)"
    by (cases "c ! i")
  have i: "i < length c"
    using Cons.prems by simp
  then have "np \<in> fst ` set data"
    using assms(1) p nth_mem [of i c] by force
  then have "\<exists>y q. e' = ValueError y q"
    if "calculate_absorption data np x = Inl e' \<or> calculate_scattering data np x = Inl e'"
    for e'
    using that calculate_absorption_error calculate_scattering_error by blast
  moreover have "\<exists>y q. e' = ValueError y q"
    if "penalty_loop ar data w c i x [0..<n] PyZero = Inl e'" for e'
    using penalty_loop_error [OF assms(1) _ that] assms(2) by auto
  ultimately show ?case
    using Cons i p
    by (auto simp: item_def split: if_splits sum.splits)
qed

lemma calculate_S_score_error:
  assumes "c \<in> set (candidates n data)" and "calculate_S_score ar n c data w = Inl e"
  shows "\<exists>x np. e = ValueError x np"
proof -
  have "length c = n"
    using assms(1) by (simp add: candidates_def combinations_length)
  then show ?thesis
    using score_loop_error [OF candidates_names [OF assms(1)], of n "[0..<n]" ar w PyZero e] assms(2)
    by (simp add: calculate_S_score_def)
qed

lemma search_loop_error:
  assumes "c \<in> set cs" and "distinct (map fst c)" and "calculate_S_score ar n c data w = Inl e"
  shows "\<exists>d e'. d \<in> set cs \<and> calculate_S_score ar n d data w = Inl e'
           \<and> snd (search_loop ar n data w cs best m) = Inl e'"
  using assms(1)
proof (induction cs arbitrary: best m)
  case Nil
  then show ?case by simp
next
  case (Cons d cs)
  show ?case
  proof (cases "distinct (map fst d) \<and> (\<exists>e'. calculate_S_score ar n d data w = Inl e')")
    case True
    then show ?thesis
      by (auto simp del: search_loop.simps simp add: search_loop_Cons)
  next
    case False
    then have "c \<noteq> d"
      using assms(2,3) by auto
    then have "c \<in> set cs"
      using Cons.prems by simp
    moreover have "\<exists>b k. snd (search_loop ar n data w (d # cs) best m)
        = snd (search_loop ar n data w cs b k)"
      using False
      by (cases "calculate_S_score ar n d data w")
         (auto simp del: search_loop.simps simp add: search_loop_Cons Let_def)
    ultimately show ?thesis
      using Cons.IH by (metis list.set_intros(2))
  qed
qed

text \<open>
  Claim C3. If the scoring of some valid candidate (an enumerated candidate without a
  repeated nanoparticle name) fails on a lookup, the whole call of
  \<open>find_best_combination\<close> fails with the wavelength-not-found \<open>ValueError\<close>: the
  candidate is not skipped and no (combination, score) pair is returned.
\<close>

theorem find_best_combination_lookup_failure:
  assumes "c \<in> set (candidates n data)" and "distinct (map fst c)"
    and "calculate_S_score ar n c data w = Inl e"
  shows "\<exists>wavelength nanoparticle.
           find_best_combination ar n data w = Inl (ValueError wavelength nanoparticle)"
proof -
  have "data \<noteq> []"
  proof
    assume "data = []"
    then have "n = 0"
      using assms(1) by (cases n) (simp_all add: candidates_def universe_def)
    then show False
      using assms(3) by (simp add: calculate_S_score_def)
  qed
  moreover obtain d e' where "d \<in> set (candidates n data)"
    and "calculate_S_score ar n d data w = Inl e'"
    and "snd (search_loop ar n data w (candidates n data) None MinusInf) = Inl e'"
    using search_loop_error [OF assms] by blast
  ultimately show ?thesis
    using calculate_S_score_error [of d n data ar w e']
    by (auto simp: find_best_combination_def run_search_nonempty)
qed

theorem find_best_combination_lookup_failure_witness:
  "[(''A'', 1), (''B'', 2)] \<in> set (candidates 2 ragged_data)
   \<and> distinct (map fst [(''A'', 1::rat), (''B'', 2)])
   \<and> calculate_S_score binary64 2 [(''A'', 1), (''B'', 2)] ragged_data example_weights
       = Inl (ValueError 2 ''B'')
   \<and> find_best_combination binary64 2 ragged_data example_weights = Inl (ValueError 2 ''B'')"
proof -
  let ?c = "[(''A'', 1::rat), (''B'', 2)]"
  have h1: "?c \<in> set (candidates 2 ragged_data)"
    by (simp add: eval_defs ragged_data_def)
  have h2: "distinct (map fst ?c)"
    by simp
  have h3: "calculate_S_score binary64 2 ?c ragged_data example_weights
      = Inl (ValueError 2 ''B'')"
    by (simp add: eval_defs ragged_data_def example_weights_def)
  have "find_best_combination binary64 2 ragged_data example_weights
      = Inl (ValueError 2 ''B'')"
    by (simp add: eval_defs ragged_data_def example_weights_def)
  then show ?thesis
    using h1 h2 h3 find_best_combination_lookup_failure [OF h1 h2 h3] by simp
qed

section \<open>The extinction column is never read\<close>

lemma map_of_without_Qext:
  "map_of (without_Qext data) np = map_option (map (\<lambda>r. r\<lparr>Qext := Qsca r\<rparr>)) (map_of data np)"
  by (induction data) (auto simp: without_Qext_def)

lemma filter_nm_blank:
  "filter (\<lambda>r. nm r = wl) (map (\<lambda>r. r\<lparr>Qext := Qsca r\<rparr>) df)
     = map (\<lambda>r. r\<lparr>Qext := Qsca r\<rparr>) (filter (\<lambda>r. nm r = wl) df)"
  by (induction df) simp_all

lemma calculate_absorption_without_Qext:
  "calculate_absorption (without_Qext data) np wl = calculate_absorption data np wl"
  by (simp add: calculate_absorption_def map_of_without_Qext filter_nm_blank
      split: option.splits list.splits)

lemma calculate_scattering_without_Qext:
  "calculate_scattering (without_Qext data) np wl = calculate_scattering data np wl"
  by (simp add: calculate_scattering_def map_of_without_Qext filter_nm_blank
      split: option.splits list.splits)

lemma penalty_loop_without_Qext:
  "penalty_loop ar (without_Qext data) w c i wl js tp = penalty_loop ar data w c i wl js tp"
  by (induction js arbitrary: tp)
     (simp_all add: calculate_absorption_without_Qext calculate_scattering_without_Qext
       cong: sum.case_cong prod.case_cong if_cong)

lemma score_loop_without_Qext:
  "score_loop ar n (without_Qext data) w c is t = score_loop ar n data w c is t"
  by (induction "is" arbitrary: t)
     (simp_all add: calculate_absorption_without_Qext calculate_scattering_without_Qext
       penalty_loop_without_Qext cong: sum.case_cong prod.case_cong)

lemma calculate_S_score_without_Qext:
  "calculate_S_score ar n c (without_Qext data) w = calculate_S_score ar n c data w"
  by (simp add: calculate_S_score_def score_loop_without_Qext)

lemma search_loop_without_Qext:
  "search_loop ar n (without_Qext data) w cs best m = search_loop ar n data w cs best m"
  by (induction cs arbitrary: best m)
     (simp_all add: calculate_S_score_without_Qext cong: sum.case_cong prod.case_cong if_cong)

lemma names_without_Qext: "map fst (without_Qext data) = map fst data"
  by (induction data) (auto simp: without_Qext_def)

lemma universe_without_Qext: "universe (without_Qext data) = universe data"
proof (cases data)
  case Nil
  then show ?thesis
    by (simp add: without_Qext_def)
next
  case (Cons p rest)
  obtain name df where p: "p = (name, df)"
    by (cases p)
  have "without_Qext data = (name, map (\<lambda>r. r\<lparr>Qext := Qsca r\<rparr>) df) # without_Qext rest"
    using Cons p by (simp add: without_Qext_def)
  moreover have "map nm (map (\<lambda>r. r\<lparr>Qext := Qsca r\<rparr>) df) = map nm df"
    by simp
  ultimately show ?thesis
    using Cons p names_without_Qext [of data] by (simp add: universe_def comp_def)
qed

lemma run_search_without_Qext: "run_search ar n (without_Qext data) w = run_search ar n data w"
proof (cases "data = []")
  case True
  then show ?thesis
    by (simp add: without_Qext_def)
next
  case False
  then have "without_Qext data \<noteq> []"
    by (simp add: without_Qext_def)
  then show ?thesis
    using False
    by (simp add: run_search_nonempty candidates_def universe_without_Qext
        search_loop_without_Qext)
qed

lemma same_but_Qext_blank: "same_but_Qext r r' \<Longrightarrow> r\<lparr>Qext := Qsca r\<rparr> = r'\<lparr>Qext := Qsca r'\<rparr>"
  by (cases r; cases r') (simp add: same_but_Qext_def)

lemma rows_blank:
  "list_all2 same_but_Qext df df'
     \<Longrightarrow> map (\<lambda>r. r\<lparr>Qext := Qsca r\<rparr>) df = map (\<lambda>r. r\<lparr>Qext := Qsca r\<rparr>) df'"
  by (induction rule: list_all2_induct) (simp_all add: same_but_Qext_blank)

lemma agree_without_Qext:
  "agree_but_Qext data data' \<Longrightarrow> without_Qext data = without_Qext data'"
  unfolding agree_but_Qext_def
  by (induction rule: list_all2_induct) (auto simp: without_Qext_def rows_blank)

text \<open>
  Claim C10. The result of \<open>find_best_combination\<close> does not depend on the \<open>Qext\<close>
  column: for two catalogs whose tables agree on the wavelengths, the scattering and the
  absorption values and differ arbitrarily in \<open>Qext\<close>, the call returns the same outcome
  (the same combination and score, or the same error) for the same \<open>n\<close> and weights.
\<close>

theorem find_best_combination_ignores_Qext:
  assumes "agree_but_Qext data data'"
  shows "find_best_combination ar n data w = find_best_combination ar n data' w"
proof -
  have "run_search ar n data w = run_search ar n (without_Qext data) w"
    by (simp add: run_search_without_Qext)
  also have "\<dots> = run_search ar n (without_Qext data') w"
    using agree_without_Qext [OF assms] by simp
  also have "\<dots> = run_search ar n data' w"
    by (simp add: run_search_without_Qext)
  finally show ?thesis
    by (simp add: find_best_combination_def)
qed

theorem find_best_combination_ignores_Qext_witness:
  "agree_but_Qext example_data
     [(''A'', [\<lparr>nm = 1, Qext = Finite 70, Qsca = Finite 10, Qabs = Finite 2\<rparr>,
               \<lparr>nm = 2, Qext = NaN, Qsca = Finite 2, Qabs = Finite 2\<rparr>]),
      (''B'', [\<lparr>nm = 1, Qext = Finite 0, Qsca = Finite 2, Qabs = Finite 2\<rparr>,
               \<lparr>nm = 2, Qext = NegInf, Qsca = Finite 10, Qabs = Finite 2\<rparr>])]
   \<and> find_best_combination binary64 2
       [(''A'', [\<lparr>nm = 1, Qext = Finite 70, Qsca = Finite 10, Qabs = Finite 2\<rparr>,
                 \<lparr>nm = 2, Qext = NaN, Qsca = Finite 2, Qabs = Finite 2\<rparr>]),
        (''B'', [\<lparr>nm = 1, Qext = Finite 0, Qsca = Finite 2, Qabs = Finite 2\<rparr>,
                 \<lparr>nm = 2, Qext = NegInf, Qsca = Finite 10, Qabs = Finite 2\<rparr>])]
       example_weights
     = Inr (Some [(''A'', 1), (''B'', 2)], Fin (Np (Finite 8)))"
proof -
  let ?d = "[(''A'', [\<lparr>nm = 1, Qext = Finite 70, Qsca = Finite 10, Qabs = Finite 2\<rparr>,
               \<lparr>nm = 2, Qext = NaN, Qsca = Finite 2, Qabs = Finite 2\<rparr>]),
      (''B'', [\<lparr>nm = 1, Qext = Finite 0, Qsca = Finite 2, Qabs = Finite 2\<rparr>,
               \<lparr>nm = 2, Qext = NegInf, Qsca = Finite 10, Qabs = Finite 2\<rparr>])]"
  have h: "agree_but_Qext example_data ?d"
    by (simp add: agree_but_Qext_def same_but_Qext_def example_data_def)
  have "find_best_combination binary64 2 example_data example_weights
      = Inr (Some [(''A'', 1), (''B'', 2)], Fin (Np (Finite 8)))"
    by (simp add: eval_defs example_data_def example_weights_def)
  then show ?thesis
    using h find_best_combination_ignores_Qext [OF h, of binary64 2 example_weights] by simp
qed

section \<open>The score as a sum of contributions\<close>

lemma penalty_loop_fold:
  assumes "\<And>j. j \<in> set js \<Longrightarrow> j \<noteq> i \<Longrightarrow>
             j < length c
             \<and> calculate_absorption data (fst (c ! j)) wl = Inr (A j)
             \<and> calculate_scattering data (fst (c ! j)) wl = Inr (S j)"
  shows "penalty_loop ar data w c i wl js tp =
           Inr (foldl (\<lambda>acc x. Np (add ar (operand ar acc) x)) tp
                  (map (\<lambda>j. response ar w (S j) (A j)) (filter (\<lambda>j. j \<noteq> i) js)))"
  using assms
proof (induction js arbitrary: tp)
  case Nil
  show ?case by simp
next
  case (Cons j js)
  have rest: "penalty_loop ar data w c i wl js t =
      Inr (foldl (\<lambda>acc x. Np (add ar (operand ar acc) x)) t
             (map (\<lambda>j. response ar w (S j) (A j)) (filter (\<lambda>j. j \<noteq> i) js)))" for t
    using Cons.IH Cons.prems by simp
  show ?case
  proof (cases "i = j")
    case True
    then show ?thesis
      using rest [of tp] by simp
  next
    case False
    obtain np x where p: "c ! j = (np, x)"
      by (cases "c ! j")
    have "j < length c"
      and "calculate_absorption data np wl = Inr (A j)"
      and "calculate_scattering data np wl = Inr (S j)"
      using Cons.prems [of j] False p by auto
    then show ?thesis
      using False p by (simp add: rest item_def response_def)
  qed
qed

lemma score_loop_fold:
  assumes "\<And>i. i \<in> set is \<Longrightarrow>
             i < length c
             \<and> calculate_absorption data (fst (c ! i)) (snd (c ! i)) = Inr (A i)
             \<and> calculate_scattering data (fst (c ! i)) (snd (c ! i)) = Inr (S i)
             \<and> penalty_loop ar data w c i (snd (c ! i)) [0..<n] PyZero = Inr (P i)"
  shows "score_loop ar n data w c is t =
           Inr (foldl (\<lambda>acc x. Np (add ar (operand ar acc) x)) t
                  (map (\<lambda>i. sub ar (response ar w (S i) (A i)) (operand ar (P i))) is))"
  using assms
proof (induction "is" arbitrary: t)
  case Nil
  show ?case by simp
next
  case (Cons i "is")
  have rest: "score_loop ar n data w c is u =
      Inr (foldl (\<lambda>acc x. Np (add ar (operand ar acc) x)) u
             (map (\<lambda>i. sub ar (response ar w (S i) (A i)) (operand ar (P i))) is))" for u
    using Cons.IH Cons.prems by simp
  obtain np wl where p: "c ! i = (np, wl)"
    by (cases "c ! i")
  have "i < length c"
    and "calculate_absorption data np wl = Inr (A i)"
    and "calculate_scattering data np wl = Inr (S i)"
    and "penalty_loop ar data w c i wl [0..<n] PyZero = Inr (P i)"
    using Cons.prems [of i] p by auto
  then show ?case
    using p by (simp add: rest item_def response_def)
qed

text \<open>
  Claim C2. For an assignment of \<open>n\<close> pairs \<open>(P\<^sub>i, w\<^sub>i)\<close> whose lookups all succeed, with
  \<open>S j i\<close> and \<open>A j i\<close> the scattering and absorption that the lookups return for nanoparticle
  \<open>P\<^sub>j\<close> at wavelength \<open>w\<^sub>i\<close>, \<open>calculate_S_score\<close> returns the sum over \<open>i\<close> of the
  contributions: the own response \<open>scattering * S i i + absorption * A i i\<close> minus the
  penalty, which is the sum over every \<open>j\<close> other than \<open>i\<close> of the response
  \<open>scattering * S j i + absorption * A j i\<close> of the other nanoparticle at \<open>w\<^sub>i\<close>, not at its
  own wavelength. The sums and products are those of the arithmetic at hand, taken in index
  order from Python's \<open>0\<close>, so the statement holds with rounding, overflow and wrap-around.
\<close>

theorem calculate_S_score_formula:
  assumes "length combination = n"
    and "\<And>i j. i < n \<Longrightarrow> j < n \<Longrightarrow>
           calculate_scattering data (fst (combination ! j)) (snd (combination ! i)) = Inr (S j i)"
    and "\<And>i j. i < n \<Longrightarrow> j < n \<Longrightarrow>
           calculate_absorption data (fst (combination ! j)) (snd (combination ! i)) = Inr (A j i)"
  shows "calculate_S_score ar n combination data w =
           Inr (machine_sum ar
                  (map (\<lambda>i. sub ar (response ar w (S i i) (A i i))
                               (operand ar
                                  (machine_sum ar
                                     (map (\<lambda>j. response ar w (S j i) (A j i))
                                        (filter (\<lambda>j. j \<noteq> i) [0..<n])))))
                     [0..<n]))"
proof -
  have pen: "penalty_loop ar data w combination i (snd (combination ! i)) [0..<n] PyZero =
      Inr (machine_sum ar
             (map (\<lambda>j. response ar w (S j i) (A j i)) (filter (\<lambda>j. j \<noteq> i) [0..<n])))"
    if "i < n" for i
    unfolding machine_sum_def
    by (rule penalty_loop_fold) (use assms that in auto)
  show ?thesis
    unfolding calculate_S_score_def machine_sum_def [of ar "map _ [0..<n]"]
    by (rule score_loop_fold) (use assms pen in auto)
qed

theorem calculate_S_score_formula_witness:
  "calculate_S_score binary64 2 [(''A'', 1), (''B'', 2)] example_data example_weights
     = Inr (Np (Finite 8))"
proof -
  let ?c = "[(''A'', 1::rat), (''B'', 2)]"
  let ?S = "\<lambda>j i :: nat. if j = i then Finite 10 else Finite 2"
  let ?A = "\<lambda>j i :: nat. Finite 2"
  have h1: "length ?c = 2" by simp
  have h2: "calculate_scattering example_data (fst (?c ! j)) (snd (?c ! i)) = Inr (?S j i)"
    if "i < 2" "j < 2" for i j
  proof -
    from that have "i = 0 \<or> i = 1" "j = 0 \<or> j = 1" by auto
    then show ?thesis
      by (auto simp: calculate_scattering_def example_data_def)
  qed
  have h3: "calculate_absorption example_data (fst (?c ! j)) (snd (?c ! i)) = Inr (?A j i)"
    if "i < 2" "j < 2" for i j
  proof -
    from that have "i = 0 \<or> i = 1" "j = 0 \<or> j = 1" by auto
    then show ?thesis
      by (auto simp: calculate_absorption_def example_data_def)
  qed
  show ?thesis
    using calculate_S_score_formula
      [of ?c 2 example_data ?S ?A binary64 example_weights, OF h1 h2 h3]
    by (simp add: machine_sum_def response_def example_weights_def binary64_def f64_sub_def
        round64_small upt_rec numeral_2_eq_2)
qed

end
